theory Spec2Isabelle
  imports Main "HOL-Library.Sublist"
begin

section \<open>Errors and external collaborators\<close>

text \<open>
  Go's \<open>error\<close> values are opaque. The two errors that \<open>pile.go\<close> creates itself get a
  constructor each; every error handed over by a collaborator (the operating system, the
  git tooling, the database engine) is \<open>External\<close> with its message.
\<close>

datatype error =
    PoolUnavailable
  | ContextDone
  | External string

text \<open>
  One call of \<open>AddRepo\<close> talks to the file system, to the git tooling, to the connection
  pool and to its context. What they answer during the call is the \<open>world\<close> of that call:
  \<^item> \<open>mkdir_temp\<close>: the result of \<open>os.MkdirTemp(p.clonePath, ...)\<close>;
  \<^item> \<open>clone_exec repoURL cloneDir\<close>: the result of \<open>clone.Exec\<close>;
  \<^item> \<open>gitlog_exec cloneDir\<close>: the result of \<open>gitlog.Exec\<close>, and inside it the
    result of the one \<open>commitIter.Next()\<close> (the SHA of the head commit);
  \<^item> \<open>pool_get\<close>: whether \<open>p.pool.Get(ctx)\<close> returns a connection;
  \<^item> \<open>select_repo_err\<close>, \<open>insert_repo_err\<close>, \<open>insert_content_err i\<close>: the error, if
    any, of the three statements that \<open>AddRepo\<close> executes (the third once per loop
    iteration \<open>i\<close>); a statement that fails has no effect and delivers no row;
  \<^item> \<open>commit_err\<close>: the error, if any, of the \<open>COMMIT\<close> that ends the transaction;
  \<^item> \<open>lsfiles_exec cloneDir\<close>: the result of \<open>lsfiles.Exec\<close>, and inside it what the
    successive \<open>fileIter.Next()\<close> return before \<open>io.EOF\<close>;
  \<^item> \<open>read_file cloneDir filePath\<close>: the result of
    \<open>os.ReadFile(path.Join(cloneDir, filePath))\<close>;
  \<^item> \<open>ctx_done_at\<close>: the loop iteration from which on \<open>ctx.Done()\<close> is closed
    (\<open>None\<close>: the context is never cancelled during the loop).
\<close>

record world =
  mkdir_temp :: "error + string"
  clone_exec :: "string \<Rightarrow> string \<Rightarrow> error option"
  gitlog_exec :: "string \<Rightarrow> error + (error + string)"
  pool_get :: bool
  select_repo_err :: "error option"
  insert_repo_err :: "error option"
  lsfiles_exec :: "string \<Rightarrow> error + (error + string) list"
  ctx_done_at :: "nat option"
  read_file :: "string \<Rightarrow> string \<Rightarrow> error + string"
  insert_content_err :: "nat \<Rightarrow> error option"
  commit_err :: "error option"

text \<open>
  \<open>ListRepos\<close> and \<open>SearchAllRepoContents\<close> borrow a connection and execute one
  statement.
\<close>

record query_world =
  query_pool_get :: bool
  query_err :: "error option"

section \<open>The persisted schema\<close>

text \<open>
  The two tables of \<open>schema\<close>. \<open>repos.id\<close> is the \<open>INTEGER PRIMARY KEY\<close> (field
  \<open>row_id\<close> here); \<open>repo_contents.repo_id\<close> is filled by a scalar subquery and is
  \<open>NULL\<close> (\<open>None\<close>) when no row of \<open>repos\<close> has the URL. Rows are kept in insertion
  order.
\<close>

record repo_row =
  row_id :: nat
  url :: string
  last_indexed_commit_hash :: string

record content_row =
  repo_id :: "nat option"
  path :: string
  content :: string

record database =
  repos :: "repo_row list"
  repo_contents :: "content_row list"

definition empty_database :: database where
  "empty_database = \<lparr>repos = [], repo_contents = []\<rparr>"

subsection \<open>The statements of \<open>pile.go\<close>\<close>

text \<open>\<open>SELECT url, last_indexed_commit_hash FROM repos WHERE url = ? LIMIT 1\<close>\<close>

definition select_repo :: "string \<Rightarrow> database \<Rightarrow> repo_row option" where
  "select_repo repoURL db =
     (case filter (\<lambda>r. url r = repoURL) (repos db) of
        [] \<Rightarrow> None
      | r # _ \<Rightarrow> Some r)"

text \<open>The row id that SQLite gives a new row: one more than the largest in the table.\<close>

definition next_row_id :: "repo_row list \<Rightarrow> nat" where
  "next_row_id rows = Suc (fold max (map row_id rows) 0)"

text \<open>
  \<open>INSERT INTO repos (url, last_indexed_commit_hash) VALUES (?, ?)
  ON CONFLICT (url) DO NOTHING\<close>
\<close>

definition insert_repo :: "string \<Rightarrow> string \<Rightarrow> database \<Rightarrow> database" where
  "insert_repo repoURL latestCommitHash db =
     (if repoURL \<in> set (map url (repos db)) then db
      else db\<lparr>repos := repos db @
             [\<lparr>row_id = next_row_id (repos db), url = repoURL,
               last_indexed_commit_hash = latestCommitHash\<rparr>]\<rparr>)"

text \<open>
  \<open>INSERT INTO repo_contents (repo_id, path, content)
  VALUES ((SELECT id FROM repos WHERE url = ?), ?, ?)\<close>
\<close>

definition insert_repo_contents :: "string \<Rightarrow> string \<Rightarrow> string \<Rightarrow> database \<Rightarrow> database" where
  "insert_repo_contents repoURL filePath fileContents db =
     db\<lparr>repo_contents := repo_contents db @
        [\<lparr>repo_id = map_option row_id (select_repo repoURL db), path = filePath,
          content = fileContents\<rparr>]\<rparr>"

text \<open>
  \<open>sqlitex.Transaction\<close> returns the function that \<open>AddRepo\<close> defers. It is given the
  address of an error variable: when that variable is \<open>nil\<close> it commits, and rolls back
  if the commit fails; otherwise it rolls back. \<open>snapshot\<close> is the database when the
  transaction began, \<open>working\<close> the database as the transaction left it. The
  \<open>BEGIN\<close> itself is taken to succeed.
\<close>

definition end_transaction ::
  "error option \<Rightarrow> error option \<Rightarrow> database \<Rightarrow> database \<Rightarrow> database" where
  "end_transaction errp commitErr snapshot working =
     (case errp of
        Some _ \<Rightarrow> snapshot
      | None \<Rightarrow> (case commitErr of None \<Rightarrow> working | Some _ \<Rightarrow> snapshot))"

section \<open>\<open>AddRepo\<close>\<close>

definition ctx_done :: "world \<Rightarrow> nat \<Rightarrow> bool" where
  "ctx_done w i = (case ctx_done_at w of None \<Rightarrow> False | Some n \<Rightarrow> n \<le> i)"

text \<open>
  The loop labelled \<open>Exit\<close>: \<open>i\<close> counts the iterations, the list holds what
  \<open>fileIter.Next()\<close> still has to return before \<open>io.EOF\<close>.
\<close>

fun AddRepo_loop ::
  "world \<Rightarrow> string \<Rightarrow> string \<Rightarrow> nat \<Rightarrow> (error + string) list \<Rightarrow> database
     \<Rightarrow> error option \<times> database" where
  "AddRepo_loop w cloneDir repoURL i [] db =
     (if ctx_done w i then (Some ContextDone, db) else (None, db))"
| "AddRepo_loop w cloneDir repoURL i (next # fileIter) db =
     (if ctx_done w i then (Some ContextDone, db)
      else case next of
        Inl err \<Rightarrow> (Some err, db)
      | Inr filePath \<Rightarrow>
          (case read_file w cloneDir filePath of
             Inl err \<Rightarrow> (Some err, db)
           | Inr fileContents \<Rightarrow>
               (case insert_content_err w i of
                  Some err \<Rightarrow> (Some err, db)
                | None \<Rightarrow>
                    AddRepo_loop w cloneDir repoURL (Suc i) fileIter
                      (insert_repo_contents repoURL filePath fileContents db))))"

text \<open>
  The statements of \<open>AddRepo\<close> that run inside the transaction, from the change
  detection to the end of the loop. The errors of the \<open>SELECT\<close> and of the
  \<open>INSERT INTO repos\<close> are not looked at: the results of \<open>sqlitex.Execute\<close> and
  \<open>sqlitex.ExecuteTransient\<close> are dropped there.
\<close>

definition AddRepo_tx ::
  "world \<Rightarrow> string \<Rightarrow> string \<Rightarrow> string \<Rightarrow> database \<Rightarrow> error option \<times> database" where
  "AddRepo_tx w cloneDir repoURL latestCommitHash db =
     (let lastIndexedCommitHash =
            (case select_repo_err w of
               Some _ \<Rightarrow> ''''
             | None \<Rightarrow>
                 (case select_repo repoURL db of
                    None \<Rightarrow> ''''
                  | Some r \<Rightarrow> last_indexed_commit_hash r))
      in if lastIndexedCommitHash = latestCommitHash then (None, db)
         else
           let db' = (case insert_repo_err w of
                        Some _ \<Rightarrow> db
                      | None \<Rightarrow> insert_repo repoURL latestCommitHash db)
           in case lsfiles_exec w cloneDir of
                Inl err \<Rightarrow> (Some err, db')
              | Inr fileIter \<Rightarrow> AddRepo_loop w cloneDir repoURL 0 fileIter db')"

text \<open>
  \<open>AddRepo\<close> returns its error (\<open>None\<close> is \<open>nil\<close>) and the database as the call leaves
  it. \<open>txErr\<close> is declared, handed to the deferred function by address, and assigned
  nowhere in \<open>AddRepo\<close>.
\<close>

definition AddRepo :: "world \<Rightarrow> string \<Rightarrow> database \<Rightarrow> error option \<times> database" where
  "AddRepo w repoURL db =
     (case mkdir_temp w of
        Inl err \<Rightarrow> (Some err, db)
      | Inr cloneDir \<Rightarrow>
          (case clone_exec w repoURL cloneDir of
             Some err \<Rightarrow> (Some err, db)
           | None \<Rightarrow>
               (case gitlog_exec w cloneDir of
                  Inl err \<Rightarrow> (Some err, db)
                | Inr commitIter \<Rightarrow>
                    (case commitIter of
                       Inl err \<Rightarrow> (Some err, db)
                     | Inr latestCommitHash \<Rightarrow>
                         if \<not> pool_get w then (Some PoolUnavailable, db)
                         else
                           let txErr = None;
                               (ret, working) =
                                 AddRepo_tx w cloneDir repoURL latestCommitHash db
                           in (ret, end_transaction txErr (commit_err w) db working)))))"

section \<open>\<open>ListRepos\<close> and \<open>SearchAllRepoContents\<close>\<close>

text \<open>\<open>SELECT url FROM repos\<close>\<close>

definition ListRepos :: "query_world \<Rightarrow> database \<Rightarrow> error + string list" where
  "ListRepos q db =
     (if \<not> query_pool_get q then Inl PoolUnavailable
      else case query_err q of
        Some err \<Rightarrow> Inl err
      | None \<Rightarrow> Inr (map url (repos db)))"

text \<open>
  SQLite's \<open>lower(X)\<close> turns the ASCII upper-case letters of \<open>X\<close> into lower case and
  leaves every other character alone.
\<close>

definition lower_char :: "char \<Rightarrow> char" where
  "lower_char c =
     (let n = (of_char c :: nat)
      in if 65 \<le> n \<and> n \<le> 90 then char_of (n + 32) else c)"

definition lower :: "string \<Rightarrow> string" where
  "lower s = map lower_char s"

text \<open>
  SQLite's \<open>instr(X, Y)\<close>: one more than the number of characters before the first
  occurrence of \<open>Y\<close> in \<open>X\<close>, and 0 when \<open>Y\<close> does not occur in \<open>X\<close>.
  \<open>instr_at n\<close> is the search with \<open>n - 1\<close> characters already passed.
\<close>

fun instr_at :: "nat \<Rightarrow> string \<Rightarrow> string \<Rightarrow> nat" where
  "instr_at n [] y = (if y = [] then n else 0)"
| "instr_at n (c # x) y = (if prefix y (c # x) then n else instr_at (Suc n) x y)"

definition instr :: "string \<Rightarrow> string \<Rightarrow> nat" where
  "instr x y = instr_at 1 x y"

text \<open>
  \<open>SELECT path, repo_id FROM repo_contents WHERE instr(lower(content), lower(?)) > 0\<close>,
  of which the result function keeps column 0.
\<close>

definition SearchAllRepoContents :: "query_world \<Rightarrow> string \<Rightarrow> database \<Rightarrow> error + string list" where
  "SearchAllRepoContents q query db =
     (if \<not> query_pool_get q then Inl PoolUnavailable
      else case query_err q of
        Some err \<Rightarrow> Inl err
      | None \<Rightarrow>
          Inr (map path
                 (filter (\<lambda>r. instr (lower (content r)) (lower query) > 0)
                    (repo_contents db))))"

section \<open>Example calls\<close>

text \<open>
  Concrete worlds and databases, on which the properties below are evaluated.
  \<open>good_world sha files\<close> is a call in which every collaborator succeeds: the head
  commit is \<open>sha\<close> and the working tree holds \<open>files\<close> (path and content).
\<close>

definition example_url :: string where
  "example_url = ''https://example/repo''"

definition fixture :: "(string \<times> string) list" where
  "fixture = [(''a.txt'', ''foo''), (''b.txt'', ''bar'')]"

definition good_world :: "string \<Rightarrow> (string \<times> string) list \<Rightarrow> world" where
  "good_world sha files =
     \<lparr>mkdir_temp = Inr ''/tmp/clone'',
      clone_exec = (\<lambda>_ _. None),
      gitlog_exec = (\<lambda>_. Inr (Inr sha)),
      pool_get = True,
      select_repo_err = None,
      insert_repo_err = None,
      lsfiles_exec = (\<lambda>_. Inr (map (\<lambda>f. Inr (fst f)) files)),
      ctx_done_at = None,
      read_file = (\<lambda>_ filePath. case map_of files filePath of
                     None \<Rightarrow> Inl (External ''no such file'')
                   | Some c \<Rightarrow> Inr c),
      insert_content_err = (\<lambda>_. None),
      commit_err = None\<rparr>"

definition query_ok :: query_world where
  "query_ok = \<lparr>query_pool_get = True, query_err = None\<rparr>"

text \<open>The database after \<open>fixture\<close> has been indexed at commit \<open>A\<close>.\<close>

definition indexed_at_A :: database where
  "indexed_at_A =
     \<lparr>repos = [\<lparr>row_id = 1, url = example_url, last_indexed_commit_hash = ''A''\<rparr>],
      repo_contents =
        [\<lparr>repo_id = Some 1, path = ''a.txt'', content = ''foo''\<rparr>,
         \<lparr>repo_id = Some 1, path = ''b.txt'', content = ''bar''\<rparr>]\<rparr>"

text \<open>At commit \<open>B\<close> the file \<open>a.txt\<close> has changed and \<open>b.txt\<close> is gone.\<close>

definition changed :: "(string \<times> string) list" where
  "changed = [(''a.txt'', ''foo2'')]"

definition a_txt_at_B :: content_row where
  "a_txt_at_B = \<lparr>repo_id = Some 1, path = ''a.txt'', content = ''foo2''\<rparr>"

text \<open>A call in which \<open>os.ReadFile\<close> fails on the second file, \<open>b.txt\<close>.\<close>

definition read_fails :: world where
  "read_fails =
     (good_world ''A'' fixture)
       \<lparr>read_file := (\<lambda>_ filePath. if filePath = ''a.txt'' then Inr ''foo''
                                    else Inl (External ''read error''))\<rparr>"

text \<open>A call in which \<open>clone.Exec\<close> fails.\<close>

definition clone_fails :: world where
  "clone_fails =
     (good_world ''A'' fixture)
       \<lparr>clone_exec := (\<lambda>_ _. Some (External ''repository not found''))\<rparr>"

text \<open>A database with one file whose content is empty and one that greets.\<close>

definition greeting :: database where
  "greeting =
     \<lparr>repos = [\<lparr>row_id = 1, url = example_url, last_indexed_commit_hash = ''A''\<rparr>],
      repo_contents =
        [\<lparr>repo_id = Some 1, path = ''empty.txt'', content = ''''\<rparr>,
         \<lparr>repo_id = Some 1, path = ''hello.txt'', content = ''Say Hello!''\<rparr>,
         \<lparr>repo_id = Some 1, path = ''bye.txt'', content = ''Goodbye''\<rparr>]\<rparr>"

text \<open>
  A call in which the second \<open>INSERT INTO repo_contents\<close> fails, the content of
  \<open>b.txt\<close> being larger than the engine accepts.
\<close>

definition content_insert_fails :: world where
  "content_insert_fails =
     (good_world ''A'' fixture)
       \<lparr>insert_content_err :=
          (\<lambda>i. if i = 1 then Some (External ''string or blob too big'') else None)\<rparr>"

text \<open>The database that both calls leave: the row of the repository and \<open>a.txt\<close>.\<close>

definition partly_indexed :: database where
  "partly_indexed =
     \<lparr>repos = [\<lparr>row_id = 1, url = example_url, last_indexed_commit_hash = ''A''\<rparr>],
      repo_contents = [\<lparr>repo_id = Some 1, path = ''a.txt'', content = ''foo''\<rparr>]\<rparr>"

section \<open>Properties\<close>

lemmas eval_defs =
  AddRepo_def AddRepo_tx_def end_transaction_def ctx_done_def
  select_repo_def insert_repo_def insert_repo_contents_def next_row_id_def
  ListRepos_def SearchAllRepoContents_def
  example_url_def fixture_def good_world_def query_ok_def indexed_at_A_def changed_def
  a_txt_at_B_def read_fails_def clone_fails_def greeting_def empty_database_def
  content_insert_fails_def partly_indexed_def

text \<open>The first indexing of \<open>fixture\<close> on the empty database gives \<open>indexed_at_A\<close>.\<close>

lemma indexed_at_A_reached:
  "AddRepo (good_world ''A'' fixture) example_url empty_database = (None, indexed_at_A)"
  by (simp add: eval_defs)

subsection \<open>Failure of the clone or of the commit inspection\<close>

text \<open>
  C5: when \<open>clone.Exec\<close> fails, or \<open>gitlog.Exec\<close> or \<open>commitIter.Next()\<close> after it,
  \<open>AddRepo\<close> returns that error and the database is the one it was called on: no row
  of \<open>repos\<close> is created and no row of \<open>repo_contents\<close> is inserted.
\<close>

theorem AddRepo_clone_failure_unchanged:
  assumes "mkdir_temp w = Inr cloneDir"
    and "clone_exec w repoURL cloneDir = Some err
         \<or> (clone_exec w repoURL cloneDir = None \<and> gitlog_exec w cloneDir = Inl err)
         \<or> (clone_exec w repoURL cloneDir = None \<and> gitlog_exec w cloneDir = Inr (Inl err))"
  shows "AddRepo w repoURL db = (Some err, db)"
  using assms by (auto simp: AddRepo_def)

theorem AddRepo_clone_failure_unchanged_witness:
  "mkdir_temp clone_fails = Inr ''/tmp/clone''
   \<and> clone_exec clone_fails example_url ''/tmp/clone'' = Some (External ''repository not found'')
   \<and> AddRepo clone_fails example_url indexed_at_A
       = (Some (External ''repository not found''), indexed_at_A)"
proof -
  have dir: "mkdir_temp clone_fails = Inr ''/tmp/clone''"
    by (simp add: clone_fails_def good_world_def)
  have fails: "clone_exec clone_fails example_url ''/tmp/clone''
      = Some (External ''repository not found'')"
    by (simp add: clone_fails_def good_world_def)
  from AddRepo_clone_failure_unchanged [OF dir disjI1, OF fails] dir fails
  show ?thesis by simp
qed

subsection \<open>The catalogue of an empty database\<close>



subsection \<open>Search\<close>

lemma lower_Nil: "lower [] = []"
  by (simp add: lower_def)

lemma instr_at_Nil: "instr_at n x [] = n"
  by (cases x) simp_all

lemma instr_at_pos: "0 < n \<Longrightarrow> (0 < instr_at n x y) = sublist y x"
  by (induction x arbitrary: n) (auto simp: sublist_Cons_right)

lemma instr_pos: "(0 < instr x y) = sublist y x"
  by (simp add: instr_def instr_at_pos)

text \<open>
  C7: \<open>SearchAllRepoContents\<close> accepts the empty query: whenever the pool hands out a
  connection and the statement executes, it returns without error the path of every
  row of \<open>repo_contents\<close>, because \<open>instr\<close> of the empty string is positive on every
  content, the empty content included.
\<close>

theorem SearchAllRepoContents_empty_query:
  assumes "query_pool_get q" and "query_err q = None"
  shows "\<exists>paths. SearchAllRepoContents q '''' db = Inr paths
           \<and> paths = map path (repo_contents db)
           \<and> (\<forall>r \<in> set (repo_contents db).
                 0 < instr (lower (content r)) (lower '''') \<and> path r \<in> set paths)"
  using assms by (simp add: SearchAllRepoContents_def lower_Nil instr_def instr_at_Nil)


theorem SearchAllRepoContents_empty_query_witness:
  "query_pool_get query_ok \<and> query_err query_ok = None
   \<and> SearchAllRepoContents query_ok '''' greeting = Inr [''empty.txt'', ''hello.txt'', ''bye.txt'']"
proof -
  have conn: "query_pool_get query_ok" and stmt: "query_err query_ok = None"
    by (simp_all add: query_ok_def)
  from SearchAllRepoContents_empty_query [OF conn stmt, of greeting] conn stmt
  show ?thesis by (auto simp: greeting_def)
qed



subsection \<open>Rows of \<open>repo_contents\<close> are only ever appended\<close>

lemma AddRepo_loop_appends:
  "prefix (repo_contents db) (repo_contents (snd (AddRepo_loop w cloneDir repoURL i fileIter db)))"
proof (induction fileIter arbitrary: i db)
  case Nil
  then show ?case by simp
next
  case (Cons nxt fileIter)
  have step: "prefix (repo_contents db)
      (repo_contents (snd (AddRepo_loop w cloneDir repoURL (Suc i) fileIter
                             (insert_repo_contents repoURL p c db))))" for p c
  proof -
    have "prefix (repo_contents db) (repo_contents (insert_repo_contents repoURL p c db))"
      by (simp add: insert_repo_contents_def)
    then show ?thesis
      using Cons.IH prefix_order.trans by blast
  qed
  show ?case
    by (simp add: step split: sum.splits option.splits)
qed

lemma AddRepo_loop_repos:
  "repos (snd (AddRepo_loop w cloneDir repoURL i fileIter db)) = repos db"
  by (induction fileIter arbitrary: i db)
     (auto simp: insert_repo_contents_def split: sum.splits option.splits)

lemma insert_repo_contents_unchanged:
  "repo_contents (insert_repo repoURL latestCommitHash db) = repo_contents db"
  by (simp add: insert_repo_def)

lemma AddRepo_tx_appends:
  "prefix (repo_contents db)
     (repo_contents (snd (AddRepo_tx w cloneDir repoURL latestCommitHash db)))"
  using AddRepo_loop_appends [of "insert_repo repoURL latestCommitHash db" w cloneDir repoURL 0]
    AddRepo_loop_appends [of db w cloneDir repoURL 0]
  by (auto simp: AddRepo_tx_def Let_def insert_repo_contents_unchanged
           split: sum.splits option.splits)

lemma end_transaction_cases:
  "end_transaction errp commitErr snapshot working = snapshot
   \<or> end_transaction errp commitErr snapshot working = working"
  by (simp add: end_transaction_def split: option.splits)

lemma AddRepo_appends:
  "prefix (repo_contents db) (repo_contents (snd (AddRepo w repoURL db)))"
proof -
  have "prefix (repo_contents db)
      (repo_contents (end_transaction errp commitErr db
         (snd (AddRepo_tx w cloneDir repoURL latestCommitHash db))))"
    for errp commitErr cloneDir latestCommitHash
    using end_transaction_cases [of errp commitErr db
        "snd (AddRepo_tx w cloneDir repoURL latestCommitHash db)"]
      AddRepo_tx_appends [of db w cloneDir repoURL latestCommitHash]
    by auto
  then show ?thesis
    by (simp add: AddRepo_def Let_def case_prod_beta split: sum.splits option.splits)
qed

lemma SearchAllRepoContents_mono:
  assumes "prefix (repo_contents db) (repo_contents db')"
    and "SearchAllRepoContents q query db = Inr paths"
  shows "\<exists>more. SearchAllRepoContents q query db' = Inr (paths @ more)"
proof -
  from assms(1) obtain new where "repo_contents db' = repo_contents db @ new"
    by (auto simp: prefix_def)
  with assms(2) show ?thesis
    by (auto simp: SearchAllRepoContents_def split: if_splits option.splits)
qed

text \<open>
  C10: \<open>AddRepo\<close> deletes and updates no row of \<open>repo_contents\<close>: whatever the call
  does and however it ends, the rows present before it are the first rows after it, in
  the same order, and every path that \<open>SearchAllRepoContents\<close> returned before the call
  it returns after the call. The example after it indexes the repository again at a
  commit in which \<open>b.txt\<close> is gone: the search still finds \<open>b.txt\<close>.
\<close>

theorem AddRepo_keeps_repo_contents:
  "prefix (repo_contents db) (repo_contents (snd (AddRepo w repoURL db)))
   \<and> (\<forall>q query paths.
         SearchAllRepoContents q query db = Inr paths \<longrightarrow>
         (\<exists>more. SearchAllRepoContents q query (snd (AddRepo w repoURL db))
                    = Inr (paths @ more)))"
  using AddRepo_appends SearchAllRepoContents_mono by blast

lemma lower_bar: "lower ''bar'' = ''bar''" "lower ''foo'' = ''foo''" "lower ''foo2'' = ''foo2''"
  by code_simp+

lemma search_bar_at_A: "SearchAllRepoContents query_ok ''bar'' indexed_at_A = Inr [''b.txt'']"
proof -
  have "sublist ''bar'' ''bar''" "\<not> sublist ''bar'' ''foo''"
    by code_simp+
  then show ?thesis
    by (simp add: SearchAllRepoContents_def query_ok_def indexed_at_A_def instr_pos lower_bar)
qed

theorem AddRepo_keeps_repo_contents_witness:
  "SearchAllRepoContents query_ok ''bar'' indexed_at_A = Inr [''b.txt'']
   \<and> AddRepo (good_world ''B'' changed) example_url indexed_at_A
       = (None, indexed_at_A\<lparr>repo_contents := repo_contents indexed_at_A @ [a_txt_at_B]\<rparr>)
   \<and> (\<exists>more. SearchAllRepoContents query_ok ''bar''
                 (snd (AddRepo (good_world ''B'' changed) example_url indexed_at_A))
               = Inr ([''b.txt''] @ more))"
proof -
  have run: "AddRepo (good_world ''B'' changed) example_url indexed_at_A
       = (None, indexed_at_A\<lparr>repo_contents := repo_contents indexed_at_A @ [a_txt_at_B]\<rparr>)"
    by (simp add: eval_defs)
  from AddRepo_keeps_repo_contents [of indexed_at_A "good_world ''B'' changed" example_url]
  have "\<exists>more. SearchAllRepoContents query_ok ''bar''
                 (snd (AddRepo (good_world ''B'' changed) example_url indexed_at_A))
               = Inr ([''b.txt''] @ more)"
    using search_bar_at_A by blast
  with run search_bar_at_A show ?thesis by blast
qed

subsection \<open>What the transaction keeps\<close>

text \<open>
  Once the clone and the commit inspection have succeeded and a connection is there,
  the database that \<open>AddRepo\<close> leaves is the one its statements produced, unless the
  commit itself fails: the error that the call returns has no part in it.
\<close>

lemma AddRepo_after_clone:
  assumes "mkdir_temp w = Inr cloneDir"
    and "clone_exec w repoURL cloneDir = None"
    and "gitlog_exec w cloneDir = Inr (Inr latestCommitHash)"
    and "pool_get w"
  shows "AddRepo w repoURL db =
    (fst (AddRepo_tx w cloneDir repoURL latestCommitHash db),
     if commit_err w = None then snd (AddRepo_tx w cloneDir repoURL latestCommitHash db)
     else db)"
  using assms
  by (auto simp: AddRepo_def Let_def case_prod_beta end_transaction_def)

subsection \<open>One row of \<open>repos\<close> for a URL\<close>

text \<open>
  The URLs of \<open>repos\<close> stay pairwise different under any call of \<open>AddRepo\<close>, and rows
  of \<open>repos\<close> are never removed.
\<close>

lemma insert_repo_distinct:
  "distinct (map url (repos db)) \<Longrightarrow>
   distinct (map url (repos (insert_repo repoURL latestCommitHash db)))"
  by (simp add: insert_repo_def)

lemma insert_repo_prefix:
  "prefix (repos db) (repos (insert_repo repoURL latestCommitHash db))"
  by (simp add: insert_repo_def)

lemma AddRepo_tx_repos:
  "repos (snd (AddRepo_tx w cloneDir repoURL latestCommitHash db)) = repos db
   \<or> repos (snd (AddRepo_tx w cloneDir repoURL latestCommitHash db))
       = repos (insert_repo repoURL latestCommitHash db)"
  by (simp add: AddRepo_tx_def Let_def AddRepo_loop_repos split: sum.splits option.splits)

lemma AddRepo_repos:
  "repos (snd (AddRepo w repoURL db)) = repos db
   \<or> (\<exists>latestCommitHash.
         repos (snd (AddRepo w repoURL db)) = repos (insert_repo repoURL latestCommitHash db))"
proof -
  have "repos (end_transaction errp commitErr db
           (snd (AddRepo_tx w cloneDir repoURL latestCommitHash db))) = repos db
     \<or> repos (end_transaction errp commitErr db
           (snd (AddRepo_tx w cloneDir repoURL latestCommitHash db)))
         = repos (insert_repo repoURL latestCommitHash db)"
    for errp commitErr cloneDir latestCommitHash
    using end_transaction_cases [of errp commitErr db
        "snd (AddRepo_tx w cloneDir repoURL latestCommitHash db)"]
      AddRepo_tx_repos [of w cloneDir repoURL latestCommitHash db]
    by auto
  then show ?thesis
    by (simp add: AddRepo_def Let_def case_prod_beta split: sum.splits option.splits) blast
qed

lemma AddRepo_urls_distinct:
  assumes "distinct (map url (repos db))"
  shows "distinct (map url (repos (snd (AddRepo w repoURL db))))"
  using AddRepo_repos [of w repoURL db] assms insert_repo_distinct by auto

lemma AddRepo_repos_prefix:
  "prefix (repos db) (repos (snd (AddRepo w repoURL db)))"
  using AddRepo_repos [of w repoURL db] insert_repo_prefix by auto

lemma select_repo_insert_repo:
  assumes "repoURL \<notin> set (map url (repos db))"
  shows "map_option last_indexed_commit_hash
           (select_repo repoURL (insert_repo repoURL latestCommitHash db))
         = Some latestCommitHash"
proof -
  have "filter (\<lambda>r. url r = repoURL) (repos db) = []"
    using assms by (auto simp: filter_empty_conv)
  then show ?thesis
    using assms by (simp add: select_repo_def insert_repo_def)
qed

lemma select_repo_cong:
  "repos db' = repos db \<Longrightarrow> select_repo repoURL db' = select_repo repoURL db"
  by (simp add: select_repo_def)

text \<open>
  For a URL that has no row yet, a call whose statements all execute and that returns
  \<open>nil\<close> leaves the row with the head commit, and a second call that sees the same
  head commit changes nothing.
\<close>

lemma AddRepo_new_url_hash:
  assumes "mkdir_temp w = Inr cloneDir"
    and "clone_exec w repoURL cloneDir = None"
    and "gitlog_exec w cloneDir = Inr (Inr latestCommitHash)"
    and "pool_get w"
    and "select_repo_err w = None" and "insert_repo_err w = None" and "commit_err w = None"
    and "latestCommitHash \<noteq> ''''"
    and "repoURL \<notin> set (map url (repos db))"
  shows "map_option last_indexed_commit_hash (select_repo repoURL (snd (AddRepo w repoURL db)))
         = Some latestCommitHash"
proof -
  have "filter (\<lambda>r. url r = repoURL) (repos db) = []"
    using assms(9) by (auto simp: filter_empty_conv)
  then have none: "select_repo repoURL db = None"
    by (simp add: select_repo_def)
  have "repos (snd (AddRepo_tx w cloneDir repoURL latestCommitHash db))
        = repos (insert_repo repoURL latestCommitHash db)"
    using assms(5,6,8) none
    by (auto simp: AddRepo_tx_def Let_def AddRepo_loop_repos split: sum.splits)
  then have "select_repo repoURL (snd (AddRepo_tx w cloneDir repoURL latestCommitHash db))
        = select_repo repoURL (insert_repo repoURL latestCommitHash db)"
    by (rule select_repo_cong)
  then show ?thesis
    using assms(7,9)
    by (simp add: AddRepo_after_clone [OF assms(1-4)] select_repo_insert_repo)
qed

lemma AddRepo_same_head_noop:
  assumes "mkdir_temp w = Inr cloneDir"
    and "clone_exec w repoURL cloneDir = None"
    and "gitlog_exec w cloneDir = Inr (Inr latestCommitHash)"
    and "pool_get w"
    and "select_repo_err w = None"
    and "map_option last_indexed_commit_hash (select_repo repoURL db) = Some latestCommitHash"
  shows "AddRepo w repoURL db = (None, db)"
  using assms(5,6)
  by (auto simp: AddRepo_after_clone [OF assms(1-4)] AddRepo_tx_def)

subsection \<open>Where the code leaves its own design\<close>

text \<open>
  C1: a call that fails inside the transaction keeps what it has written so far. On the
  empty database, with \<open>os.ReadFile\<close> failing on the second file, and likewise with the
  second \<open>INSERT INTO repo_contents\<close> failing, \<open>AddRepo\<close> returns the error and leaves
  the row of the repository and the row of the first file in the database.
\<close>

theorem AddRepo_failure_keeps_partial_writes:
  "AddRepo read_fails example_url empty_database
     = (Some (External ''read error''), partly_indexed)
   \<and> AddRepo content_insert_fails example_url empty_database
     = (Some (External ''string or blob too big''), partly_indexed)
   \<and> partly_indexed \<noteq> empty_database"
  by (simp add: eval_defs)

text \<open>
  C2: on a repository already indexed at commit \<open>A\<close>, a call that sees the head commit
  \<open>B\<close> returns \<open>nil\<close> and inserts the file of \<open>B\<close>, and the row of the repository
  still has \<open>last_indexed_commit_hash = A\<close>.
\<close>

theorem AddRepo_existing_row_keeps_old_hash:
  "fst (AddRepo (good_world ''B'' changed) example_url indexed_at_A) = None
   \<and> repo_contents (snd (AddRepo (good_world ''B'' changed) example_url indexed_at_A))
       = repo_contents indexed_at_A @ [a_txt_at_B]
   \<and> map last_indexed_commit_hash
        (repos (snd (AddRepo (good_world ''B'' changed) example_url indexed_at_A))) = [''A'']"
  by (simp add: eval_defs)

text \<open>
  C3: when the \<open>SELECT\<close> of the change detection fails with any error \<open>err\<close>, and
  likewise when the \<open>INSERT INTO repos\<close> does, \<open>AddRepo\<close> goes on and returns \<open>nil\<close>:
  the caller never sees \<open>err\<close>.
\<close>

theorem AddRepo_statement_errors_dropped:
  "fst (AddRepo ((good_world ''A'' fixture)\<lparr>select_repo_err := Some err\<rparr>)
          example_url indexed_at_A) = None
   \<and> fst (AddRepo ((good_world ''A'' fixture)\<lparr>insert_repo_err := Some err\<rparr>)
          example_url empty_database) = None"
  by (simp add: eval_defs)

text \<open>
  C4: on a repository already indexed at commit \<open>A\<close>, two calls in succession that both
  see the head commit \<open>B\<close> both return \<open>nil\<close>, and the second inserts the file of
  \<open>B\<close> a second time.
\<close>

theorem AddRepo_twice_same_head_inserts_again:
  "AddRepo (good_world ''B'' changed) example_url indexed_at_A
     = (None, indexed_at_A\<lparr>repo_contents := repo_contents indexed_at_A @ [a_txt_at_B]\<rparr>)
   \<and> AddRepo (good_world ''B'' changed) example_url
        (indexed_at_A\<lparr>repo_contents := repo_contents indexed_at_A @ [a_txt_at_B]\<rparr>)
     = (None, indexed_at_A\<lparr>repo_contents :=
                 repo_contents indexed_at_A @ [a_txt_at_B, a_txt_at_B]\<rparr>)"
  by (simp add: eval_defs)

text \<open>
  C6: on the empty database, a call in which the \<open>INSERT INTO repos\<close> fails returns
  \<open>nil\<close>, and \<open>ListRepos\<close> after it returns no URL.
\<close>

theorem AddRepo_success_without_row:
  "fst (AddRepo ((good_world ''A'' fixture)
                   \<lparr>insert_repo_err := Some (External ''database table is locked'')\<rparr>)
          example_url empty_database) = None
   \<and> ListRepos query_ok
        (snd (AddRepo ((good_world ''A'' fixture)
                         \<lparr>insert_repo_err := Some (External ''database table is locked'')\<rparr>)
                example_url empty_database)) = Inr []"
  by (simp add: eval_defs)

end
